theory Spec2Isabelle
  imports Complex_Main
begin

section \<open>Strings\<close>

text \<open>
  The two JavaScript string tests the services use on mimetypes:
  \<^verbatim>\<open>s.startsWith(p)\<close> and \<^verbatim>\<open>s.includes(sub)\<close>.
\<close>

definition startsWith :: "string \<Rightarrow> string \<Rightarrow> bool" where
  "startsWith s p = (take (length p) s = p)"

fun includes_str :: "string \<Rightarrow> string \<Rightarrow> bool" where
  "includes_str [] sub = (sub = [])"
| "includes_str (c # cs) sub = (startsWith (c # cs) sub \<or> includes_str cs sub)"

section \<open>Access control (files.service.ts, files.model.ts)\<close>

text \<open>
  \<^verbatim>\<open>canAccessFile\<close> and \<^verbatim>\<open>canDownloadFile\<close> take any object with the
  fields \<^verbatim>\<open>isPublic\<close> and \<^verbatim>\<open>uploadedBy\<close>; the record is extensible so that the
  full file document below is one of them. The optional \<^verbatim>\<open>userRole?: string\<close> is a
  \<^typ>\<open>string option\<close>, \<^verbatim>\<open>undefined\<close> being \<^term>\<open>None\<close>.
\<close>

record access_fields =
  isPublic :: bool
  uploadedBy :: string

definition canAccessFile :: "'a access_fields_scheme \<Rightarrow> string \<Rightarrow> string option \<Rightarrow> bool" where
  "canAccessFile file userId userRole =
     (if isPublic file then True
      else (uploadedBy file = userId \<or> userRole = Some ''admin''))"

definition canDownloadFile :: "'a access_fields_scheme \<Rightarrow> string \<Rightarrow> string option \<Rightarrow> bool" where
  "canDownloadFile file userId userRole =
     (if isPublic file then True
      else (uploadedBy file = userId \<or> userRole = Some ''admin''))"

text \<open>
  The document methods \<^verbatim>\<open>getFileUrl\<close> and \<^verbatim>\<open>getDownloadUrl\<close> of the schema;
  \<^verbatim>\<open>null\<close> is \<^term>\<open>None\<close>. The first argument is \<^verbatim>\<open>this.id\<close>.
\<close>

definition getFileUrl :: "'a access_fields_scheme \<Rightarrow> string \<Rightarrow> string \<Rightarrow> string option \<Rightarrow> string option" where
  "getFileUrl this thisId userId userRole =
     (if isPublic this then Some (''/api/files/'' @ thisId @ ''/serve'')
      else if uploadedBy this = userId \<or> userRole = Some ''admin''
        then Some (''/api/files/'' @ thisId @ ''/serve'')
      else None)"

definition getDownloadUrl :: "'a access_fields_scheme \<Rightarrow> string \<Rightarrow> string \<Rightarrow> string option \<Rightarrow> string option" where
  "getDownloadUrl this thisId userId userRole =
     (if isPublic this then Some (''/api/files/'' @ thisId @ ''/download'')
      else if uploadedBy this = userId \<or> userRole = Some ''admin''
        then Some (''/api/files/'' @ thisId @ ''/download'')
      else None)"

section \<open>Compression eligibility (compression.service.ts)\<close>

text \<open>
  The part of the validated environment (\<^verbatim>\<open>configs/env\<close>) the services read. The
  values come from the process environment, so every function that reads them takes the
  environment as an argument. JavaScript numbers are modelled as reals.
\<close>

record env =
  ENABLE_FILE_COMPRESSION :: bool
  COMPRESSION_QUALITY :: real
  COMPRESSION_THRESHOLD_SIZE :: real
  COMPRESS_IMAGE_TYPES :: bool
  COMPRESS_PDF_TYPES :: bool
  COMPRESS_TEXT_TYPES :: bool

text \<open>
  \<^verbatim>\<open>CompressionOptions\<close>: every field is optional; a destructuring default applies
  exactly when the field is \<^verbatim>\<open>undefined\<close>, here \<^term>\<open>None\<close>.
\<close>

record CompressionOptions =
  quality :: "real option"
  thresholdSize :: "real option"
  compressImages :: "bool option"
  compressPdfs :: "bool option"
  compressText :: "bool option"
  maxWidth :: "real option"
  maxHeight :: "real option"

definition noOptions :: CompressionOptions where
  "noOptions = \<lparr> quality = None, thresholdSize = None, compressImages = None,
     compressPdfs = None, compressText = None, maxWidth = None, maxHeight = None \<rparr>"

definition orDefault :: "'a option \<Rightarrow> 'a \<Rightarrow> 'a" where
  "orDefault v d = (case v of None \<Rightarrow> d | Some x \<Rightarrow> x)"

definition isImageType :: "string \<Rightarrow> bool" where
  "isImageType mimetype = startsWith mimetype ''image/''"

definition isPdfType :: "string \<Rightarrow> bool" where
  "isPdfType mimetype = (mimetype = ''application/pdf'')"

definition isTextType :: "string \<Rightarrow> bool" where
  "isTextType mimetype =
     (startsWith mimetype ''text/'' \<or>
      includes_str mimetype ''json'' \<or>
      includes_str mimetype ''xml'' \<or>
      includes_str mimetype ''csv'' \<or>
      includes_str mimetype ''javascript'' \<or>
      includes_str mimetype ''css'' \<or>
      includes_str mimetype ''html'')"

definition shouldCompressFile :: "env \<Rightarrow> string \<Rightarrow> real \<Rightarrow> CompressionOptions \<Rightarrow> bool" where
  "shouldCompressFile e mimetype size' opts =
     (let thresholdSize' = orDefault (thresholdSize opts) (COMPRESSION_THRESHOLD_SIZE e);
          compressImages' = orDefault (compressImages opts) (COMPRESS_IMAGE_TYPES e);
          compressPdfs' = orDefault (compressPdfs opts) False;
          compressText' = orDefault (compressText opts) (COMPRESS_TEXT_TYPES e)
      in if compressImages' \<and> isImageType mimetype then True
         else if size' < thresholdSize' then False
         else if compressPdfs' \<and> isPdfType mimetype then False
         else if compressText' \<and> isTextType mimetype then True
         else False)"

section \<open>Errors and the file system\<close>

text \<open>
  A thrown value is either an \<^verbatim>\<open>APIError\<close> with its \<^verbatim>\<open>STATUS\<close>, \<^verbatim>\<open>TITLE\<close> and
  \<^verbatim>\<open>MESSAGE\<close>, the constant \<^verbatim>\<open>AUTHORIZATION_ERRORS.AUTHORIZATION_ERROR\<close> (declared
  in \<^verbatim>\<open>lib/errors\<close>), or a plain \<^verbatim>\<open>Error\<close> with its message. A call that can throw
  returns \<open>error + 'a\<close>, \<^term>\<open>Inl\<close> being the throw.
\<close>

datatype error = APIError nat string string | AUTHORIZATION_ERROR | Error string

type_synonym path = string

text \<open>
  The disk as the services see it through \<^verbatim>\<open>fs/promises\<close>: the regular files and the
  directories that exist, by full path. An operation fails exactly when the state makes it
  fail (a missing parent directory, a missing file, a directory that is not empty).
  \<^verbatim>\<open>path.join\<close> is taken on normalised segments, where it is concatenation with one
  separator.
\<close>

record filesystem =
  files :: "path set"
  dirs :: "path set"

definition path_join :: "path \<Rightarrow> string \<Rightarrow> path" where
  "path_join a b = a @ ''/'' @ b"

definition basename :: "path \<Rightarrow> string" where
  "basename p = rev (takeWhile (\<lambda>c. c \<noteq> CHR ''/'') (rev p))"

definition dirname :: "path \<Rightarrow> path" where
  "dirname p = rev (drop 1 (dropWhile (\<lambda>c. c \<noteq> CHR ''/'') (rev p)))"

definition access :: "filesystem \<Rightarrow> path \<Rightarrow> bool" where
  "access fs p = (p \<in> files fs \<or> p \<in> dirs fs)"

definition writeFile :: "filesystem \<Rightarrow> path \<Rightarrow> error + filesystem" where
  "writeFile fs p =
     (if dirname p \<in> dirs fs \<and> p \<notin> dirs fs
      then Inr (fs\<lparr>files := insert p (files fs)\<rparr>)
      else Inl (Error ''ENOENT''))"

definition unlink :: "filesystem \<Rightarrow> path \<Rightarrow> error + filesystem" where
  "unlink fs p =
     (if p \<in> files fs then Inr (fs\<lparr>files := files fs - {p}\<rparr>)
      else Inl (Error ''ENOENT''))"

definition readdir :: "filesystem \<Rightarrow> path \<Rightarrow> error + path set" where
  "readdir fs d =
     (if d \<in> dirs fs then Inr {p \<in> files fs \<union> dirs fs. dirname p = d}
      else Inl (Error ''ENOENT''))"

definition rmdir :: "filesystem \<Rightarrow> path \<Rightarrow> error + filesystem" where
  "rmdir fs d =
     (if d \<in> dirs fs \<and> {p \<in> files fs \<union> dirs fs. dirname p = d} = {}
      then Inr (fs\<lparr>dirs := dirs fs - {d}\<rparr>)
      else Inl (Error ''ENOTEMPTY''))"

definition rename :: "filesystem \<Rightarrow> path \<Rightarrow> path \<Rightarrow> error + filesystem" where
  "rename fs a b =
     (if a \<in> files fs \<and> dirname b \<in> dirs fs \<and> b \<notin> dirs fs
      then Inr (fs\<lparr>files := insert b (files fs - {a})\<rparr>)
      else Inl (Error ''ENOENT''))"

definition mkdir_recursive :: "filesystem \<Rightarrow> path \<Rightarrow> filesystem" where
  "mkdir_recursive fs d = fs\<lparr>dirs := insert d (dirs fs)\<rparr>"

definition errorText :: "error \<Rightarrow> string" where
  "errorText err =
     (case err of APIError _ _ m \<Rightarrow> m | AUTHORIZATION_ERROR \<Rightarrow> ''Unauthorized'' | Error m \<Rightarrow> m)"

section \<open>Image transcoding (compression.service.ts)\<close>

datatype ctype = Png | Webp | Both | NoType

record CompressionResult =
  originalSize :: real
  compressedSize :: real
  compressionRatio :: real
  savingsPercentage :: real
  compressionType :: ctype
  compressedPaths :: "(path \<times> path) option"
  folderId :: string

text \<open>
  The image library is outside the repository: \<open>sharp p (quality, maxWidth, maxHeight)\<close>
  is the pair of buffer lengths (PNG, WebP) it produces for the bytes at \<open>p\<close>, and
  \<^term>\<open>None\<close> when decoding or encoding throws.
\<close>

type_synonym sharp = "path \<Rightarrow> real \<times> real \<times> real \<Rightarrow> (nat \<times> nat) option"

definition generateFilename :: "string \<Rightarrow> string \<Rightarrow> string \<Rightarrow> string" where
  "generateFilename userId fileId extension = userId @ ''_'' @ fileId @ ''.'' @ extension"

text \<open>\<^verbatim>\<open>Promise.all\<close> of the two writes: both are started, and the join throws when one fails.\<close>

definition writeBoth :: "filesystem \<Rightarrow> path \<Rightarrow> path \<Rightarrow> (error + unit) \<times> filesystem" where
  "writeBoth fs a b =
     (let r1 = writeFile fs a;
          fs1 = (case r1 of Inl _ \<Rightarrow> fs | Inr f \<Rightarrow> f);
          r2 = writeFile fs1 b;
          fs2 = (case r2 of Inl _ \<Rightarrow> fs1 | Inr f \<Rightarrow> f)
      in (case r1 of Inl err \<Rightarrow> Inl err
          | Inr _ \<Rightarrow> (case r2 of Inl err \<Rightarrow> Inl err | Inr _ \<Rightarrow> Inr ()), fs2))"

text \<open>
  The inner \<^verbatim>\<open>try\<close> block of \<^verbatim>\<open>compressImage\<close> that removes the original and the
  folder; its \<^verbatim>\<open>catch\<close> logs and goes on, so the block returns the disk only.
\<close>

definition cleanupOriginal :: "filesystem \<Rightarrow> path \<Rightarrow> path \<Rightarrow> path \<Rightarrow> path \<Rightarrow> filesystem" where
  "cleanupOriginal fs filePath compressedPngPath webpPath folderPath =
     (let originalFileExists = access fs filePath;
          isOriginalFileSameAsCompressed = (filePath = compressedPngPath \<or> filePath = webpPath)
      in case (if originalFileExists \<and> \<not> isOriginalFileSameAsCompressed
               then unlink fs filePath else Inr fs) of
           Inl _ \<Rightarrow> fs
         | Inr fs1 \<Rightarrow>
             (case readdir fs1 folderPath of
                Inl _ \<Rightarrow> fs1
              | Inr folderContents \<Rightarrow>
                  if folderContents = {}
                  then (case rmdir fs1 folderPath of Inl _ \<Rightarrow> fs1 | Inr fs2 \<Rightarrow> fs2)
                  else fs1))"

text \<open>The block "Choose the best compression result": type, size and ratio of the primary.\<close>

definition chooseBest :: "nat \<Rightarrow> nat \<Rightarrow> real \<Rightarrow> ctype \<times> real \<times> real" where
  "chooseBest compressedPngSize webpSize originalSize' =
     (let pngRatio = real compressedPngSize / originalSize';
          webpRatio = real webpSize / originalSize'
      in if webpRatio < pngRatio \<and> webpRatio < 0.95
           then (Webp, real webpSize, webpRatio)
         else if pngRatio < 0.95
           then (Png, real compressedPngSize, pngRatio)
         else (let compressedSize' = real (min compressedPngSize webpSize)
               in (if webpRatio < pngRatio then Webp else Png,
                   compressedSize', compressedSize' / originalSize')))"

definition compressImage ::
  "env \<Rightarrow> sharp \<Rightarrow> filesystem \<Rightarrow> path \<Rightarrow> path \<Rightarrow> string \<Rightarrow> string \<Rightarrow> real \<Rightarrow>
   CompressionOptions \<Rightarrow> (error + CompressionResult) \<times> filesystem" where
  "compressImage e sharp fs filePath folderPath userId fileId originalSize' opts =
     (let quality' = orDefault (quality opts) (COMPRESSION_QUALITY e);
          maxWidth' = orDefault (maxWidth opts) 1920;
          maxHeight' = orDefault (maxHeight opts) 1080;
          compressedPngName = generateFilename userId fileId ''png'';
          webpName = generateFilename userId fileId ''webp'';
          compressedPngPath = path_join folderPath compressedPngName;
          webpPath = path_join folderPath webpName
      in case (if filePath \<in> files fs then sharp filePath (quality', maxWidth', maxHeight')
               else None) of
           None \<Rightarrow> (Inl (Error ''Image compression failed: sharp''), fs)
         | Some (compressedPngSize, webpSize) \<Rightarrow>
             (case writeBoth fs compressedPngPath webpPath of
                (Inl err, fs1) \<Rightarrow>
                  (Inl (Error (''Image compression failed: '' @ errorText err)), fs1)
              | (Inr _, fs1) \<Rightarrow>
                  (let pngExists = access fs1 compressedPngPath;
                       webpExists = access fs1 webpPath;
                       fs2 = cleanupOriginal fs1 filePath compressedPngPath webpPath folderPath;
                       (compressionType', compressedSize', compressionRatio') =
                          chooseBest compressedPngSize webpSize originalSize';
                       savingsPercentage' =
                          ((originalSize' - compressedSize') / originalSize') * 100
                   in (Inr \<lparr> originalSize = originalSize',
                              compressedSize = compressedSize',
                              compressionRatio = compressionRatio',
                              savingsPercentage = savingsPercentage',
                              compressionType = compressionType',
                              compressedPaths = Some (compressedPngPath, webpPath),
                              folderId = basename folderPath \<rparr>, fs2))))"

section \<open>Text compression and the background pipeline (compression.service.ts)\<close>

text \<open>
  \<open>gzip p\<close> is the length of the gzip of the bytes at \<open>p\<close>, \<^term>\<open>None\<close> when reading
  or compressing throws. \<^verbatim>\<open>path.parse(filename).name\<close> followed by its \<^verbatim>\<open>ext\<close> is
  the base name again.
\<close>

type_synonym gzip = "path \<Rightarrow> nat option"

definition compressTextFile ::
  "gzip \<Rightarrow> path \<Rightarrow> filesystem \<Rightarrow> path \<Rightarrow> real \<Rightarrow> (error + CompressionResult) \<times> filesystem" where
  "compressTextFile gzip uploadDir fs filePath originalSize' =
     (let gzipPath = path_join uploadDir (basename filePath @ ''.gz'')
      in case (if filePath \<in> files fs then gzip filePath else None) of
           None \<Rightarrow> (Inl (Error ''Text compression failed: read''), fs)
         | Some n \<Rightarrow>
             (case writeFile fs gzipPath of
                Inl err \<Rightarrow> (Inl (Error (''Text compression failed: '' @ errorText err)), fs)
              | Inr fs1 \<Rightarrow>
                  (Inr \<lparr> originalSize = originalSize',
                         compressedSize = real n,
                         compressionRatio = real n / originalSize',
                         savingsPercentage = ((originalSize' - real n) / originalSize') * 100,
                         compressionType = NoType,
                         compressedPaths = None,
                         folderId = [] \<rparr>, fs1)))"

text \<open>
  \<^verbatim>\<open>compressFile\<close> is an \<^verbatim>\<open>async\<close> function whose whole body is one
  \<^verbatim>\<open>try\<close>: its promise is modelled as \<open>error + CompressionResult option\<close>
  (\<^term>\<open>Inl\<close> a rejection, \<^verbatim>\<open>null\<close> as \<^term>\<open>None\<close>) together with the disk it
  leaves. \<open>uuid\<close> is the value \<^verbatim>\<open>uuidv4()\<close> returns. An empty
  \<^verbatim>\<open>existingFolderPath\<close> is falsy, like \<^verbatim>\<open>undefined\<close>.
\<close>

definition compressFile ::
  "env \<Rightarrow> sharp \<Rightarrow> gzip \<Rightarrow> string \<Rightarrow> path \<Rightarrow> filesystem \<Rightarrow> path \<Rightarrow> string \<Rightarrow> real \<Rightarrow>
   string \<Rightarrow> string \<Rightarrow> CompressionOptions \<Rightarrow> path option \<Rightarrow>
   (error + CompressionResult option) \<times> filesystem" where
  "compressFile e sharp gzip uuid uploadDir fs filePath mimetype originalSize' userId fileId opts
      existingFolderPath =
     (if \<not> ENABLE_FILE_COMPRESSION e then (Inr None, fs)
      else if \<not> shouldCompressFile e mimetype originalSize' opts then (Inr None, fs)
      else if isImageType mimetype then
        (let (folderPath, fs1) =
               (case existingFolderPath of
                  Some p \<Rightarrow>
                    if p = [] then (path_join uploadDir uuid,
                                    mkdir_recursive fs (path_join uploadDir uuid))
                    else (p, fs)
                | None \<Rightarrow> (path_join uploadDir uuid,
                            mkdir_recursive fs (path_join uploadDir uuid)))
         in case compressImage e sharp fs1 filePath folderPath userId fileId originalSize' opts of
              (Inl err, fs2) \<Rightarrow> (Inr None, fs2)
            | (Inr result, fs2) \<Rightarrow> (Inr (Some result), fs2))
      else if isTextType mimetype then
        (case compressTextFile gzip uploadDir fs filePath originalSize' of
           (Inl err, fs2) \<Rightarrow> (Inr None, fs2)
         | (Inr result, fs2) \<Rightarrow> (Inr (Some result), fs2))
      else (Inr None, fs))"

text \<open>
  \<^verbatim>\<open>compressFileAsync\<close> starts \<^verbatim>\<open>compressFile\<close> and returns at once; what is
  modelled is the detached work: the disk it leaves and what the handlers do to the state
  \<open>s\<close> the optional callback \<^verbatim>\<open>onComplete\<close> acts on. The \<^verbatim>\<open>then\<close> handler
  calls \<^verbatim>\<open>onComplete(result)\<close> under \<^verbatim>\<open>if (result)\<close> only; the \<^verbatim>\<open>catch\<close>
  handler calls \<^verbatim>\<open>onComplete(null)\<close>.
\<close>

definition compressFileAsync ::
  "env \<Rightarrow> sharp \<Rightarrow> gzip \<Rightarrow> string \<Rightarrow> path \<Rightarrow> path \<Rightarrow> string \<Rightarrow> real \<Rightarrow>
   string \<Rightarrow> string \<Rightarrow> CompressionOptions \<Rightarrow> (CompressionResult option \<Rightarrow> 's \<Rightarrow> 's) option \<Rightarrow>
   path option \<Rightarrow> filesystem \<Rightarrow> 's \<Rightarrow> filesystem \<times> 's" where
  "compressFileAsync e sharp gzip uuid uploadDir filePath mimetype originalSize' userId fileId opts
      onComplete existingFolderPath fs s =
     (case compressFile e sharp gzip uuid uploadDir fs filePath mimetype originalSize' userId fileId
             opts existingFolderPath of
        (Inr result, fs') \<Rightarrow>
          (case result of
             Some r \<Rightarrow> (fs', case onComplete of None \<Rightarrow> s | Some f \<Rightarrow> f (Some r) s)
           | None \<Rightarrow> (fs', s))
      | (Inl err, fs') \<Rightarrow> (fs', case onComplete of None \<Rightarrow> s | Some f \<Rightarrow> f None s))"

section \<open>File documents and the collection (files.model.ts)\<close>

text \<open>
  The fields of a file document the service logic reads. \<^verbatim>\<open>size\<close> is \<open>fileSize\<close>
  here; \<^verbatim>\<open>expiresAt\<close> is a time stamp. The fields of \<^verbatim>\<open>compressionInfo\<close> carry
  the prefix \<open>info_\<close> where the compression result has a field of the same name. A new
  document gets \<^verbatim>\<open>compressionStatus\<close> from the schema default, \<^verbatim>\<open>'processing'\<close>.
\<close>

datatype status = Processing | Completed | Not_needed | Failed

record compressionInfo =
  compressed :: bool
  info_originalSize :: real
  info_compressedSize :: "real option"
  info_savingsPercentage :: "real option"
  info_compressionType :: "ctype option"
  info_folderId :: "string option"
  compressionStatus :: status

record FileInput = access_fields +
  originalName :: string
  filename :: string
  mimetype :: string
  fileSize :: real
  path :: path
  expiresAt :: "int option"

record file_doc = FileInput +
  compressionInfo :: compressionInfo

text \<open>
  The collection is the list of documents with their \<^verbatim>\<open>_id\<close>, in insertion order.
\<close>

type_synonym collection = "(string \<times> file_doc) list"

definition findById :: "collection \<Rightarrow> string \<Rightarrow> file_doc option" where
  "findById c fileId = map_of c fileId"

definition findByIdAndUpdate :: "collection \<Rightarrow> string \<Rightarrow> (file_doc \<Rightarrow> file_doc) \<Rightarrow> collection" where
  "findByIdAndUpdate c fileId upd = map (\<lambda>(k, d). if k = fileId then (k, upd d) else (k, d)) c"

definition findByIdAndDelete :: "collection \<Rightarrow> string \<Rightarrow> collection" where
  "findByIdAndDelete c fileId = filter (\<lambda>(k, d). k \<noteq> fileId) c"

definition isExpiredAt :: "int \<Rightarrow> file_doc \<Rightarrow> bool" where
  "isExpiredAt now d = (case expiresAt d of None \<Rightarrow> False | Some t \<Rightarrow> t < now)"

definition findExpired :: "collection \<Rightarrow> int \<Rightarrow> collection" where
  "findExpired c now = filter (\<lambda>(k, d). isExpiredAt now d) c"

record world =
  db :: collection
  disk :: filesystem

definition statusOf :: "collection \<Rightarrow> string \<Rightarrow> status option" where
  "statusOf c fileId = map_option (\<lambda>d. compressionStatus (compressionInfo d)) (findById c fileId)"

section \<open>The file service (files.service.ts)\<close>

subsection \<open>Upload: \<^verbatim>\<open>createFile\<close>\<close>

definition FileSchema_parse :: "FileInput \<Rightarrow> error + FileInput" where
  "FileSchema_parse d =
     (if originalName d \<noteq> [] \<and> filename d \<noteq> [] \<and> mimetype d \<noteq> [] \<and> 0 < fileSize d \<and>
         path d \<noteq> [] \<and> uploadedBy d \<noteq> []
      then Inr d else Inl (Error ''ZodError''))"

text \<open>
  \<^verbatim>\<open>path.extname\<close>: from the last dot of the base name on, and empty when there is
  no dot or nothing stands before the last dot.
\<close>

definition extname :: "string \<Rightarrow> string" where
  "extname p =
     (let b = basename p;
          stem = rev (drop 1 (dropWhile (\<lambda>c. c \<noteq> CHR ''.'') (rev b)))
      in if CHR ''.'' \<in> set b \<and> stem \<noteq> [] \<and> b \<noteq> ''..''
         then CHR ''.'' # rev (takeWhile (\<lambda>c. c \<noteq> CHR ''.'') (rev b))
         else [])"

record folderInfo =
  fi_folderId :: string
  fi_folderPath :: path
  fi_userId :: string
  fi_tempFileId :: string

definition newDocument :: "FileInput \<Rightarrow> file_doc" where
  "newDocument v =
     \<lparr> isPublic = isPublic v, uploadedBy = uploadedBy v, originalName = originalName v,
       filename = filename v, mimetype = mimetype v, fileSize = fileSize v, path = path v,
       expiresAt = expiresAt v,
       compressionInfo =
         \<lparr> compressed = False, info_originalSize = fileSize v, info_compressedSize = None,
           info_savingsPercentage = None, info_compressionType = None, info_folderId = None,
           compressionStatus = Processing \<rparr> \<rparr>"

text \<open>
  The callback \<^verbatim>\<open>createFile\<close> hands to \<^verbatim>\<open>compressFileAsync\<close>: it replaces the
  \<^verbatim>\<open>compressionInfo\<close> of the saved document, with \<^verbatim>\<open>'completed'\<close> for a result
  and \<^verbatim>\<open>'not_needed'\<close> for \<^verbatim>\<open>null\<close>.
\<close>

definition onComplete ::
  "string \<Rightarrow> real \<Rightarrow> folderInfo option \<Rightarrow> CompressionResult option \<Rightarrow> collection \<Rightarrow> collection" where
  "onComplete savedId size' folderInfo' compressionResult c =
     (case compressionResult of
        Some r \<Rightarrow>
          findByIdAndUpdate c savedId (\<lambda>d. d\<lparr>compressionInfo :=
            \<lparr> compressed = True, info_originalSize = originalSize r,
              info_compressedSize = Some (compressedSize r),
              info_savingsPercentage = Some (savingsPercentage r),
              info_compressionType = Some (compressionType r),
              info_folderId = Some (folderId r),
              compressionStatus = Completed \<rparr>\<rparr>)
      | None \<Rightarrow>
          findByIdAndUpdate c savedId (\<lambda>d. d\<lparr>compressionInfo :=
            \<lparr> compressed = False, info_originalSize = size', info_compressedSize = None,
              info_savingsPercentage = None, info_compressionType = None,
              info_folderId = map_option fi_folderId folderInfo',
              compressionStatus = Not_needed \<rparr>\<rparr>))"

definition uploadOptions :: "env \<Rightarrow> CompressionOptions" where
  "uploadOptions e = noOptions\<lparr> quality := Some (COMPRESSION_QUALITY e),
     maxWidth := Some 1920, maxHeight := Some 1080 \<rparr>"

text \<open>
  \<^verbatim>\<open>createFile\<close> returns the document it reads back, the state it leaves when its
  promise settles, and the background work it has dispatched, if any: a function on the
  state the work will find when it runs. \<open>newId\<close> is the \<^verbatim>\<open>_id\<close> the store gives
  the new document. The metadata extraction for images writes the \<^verbatim>\<open>metadata\<close>
  field only, which is not among the modelled fields.
\<close>

definition createFile ::
  "env \<Rightarrow> sharp \<Rightarrow> gzip \<Rightarrow> string \<Rightarrow> path \<Rightarrow> string \<Rightarrow> world \<Rightarrow> FileInput \<Rightarrow> bool \<Rightarrow>
   folderInfo option \<Rightarrow> (error + file_doc option) \<times> world \<times> (world \<Rightarrow> world) option" where
  "createFile e sharp gzip uuid uploadDir newId w fileData enableCompression folderInfo' =
     (case FileSchema_parse fileData of
        Inl err \<Rightarrow> (Inl err, w, None)
      | Inr validatedData \<Rightarrow>
          (let db1 = db w @ [(newId, newDocument validatedData)];
               renamed =
                 (case folderInfo' of
                    None \<Rightarrow> Inr (validatedData, db1, disk w)
                  | Some fi \<Rightarrow>
                      (let extension = extname (filename validatedData);
                           newFilename = fi_userId fi @ ''_'' @ newId @ extension;
                           newPath = path_join (fi_folderPath fi) newFilename
                       in case rename (disk w) (path validatedData) newPath of
                            Inl err \<Rightarrow> Inl err
                          | Inr disk1 \<Rightarrow>
                              Inr (validatedData\<lparr>path := newPath, filename := newFilename\<rparr>,
                                   findByIdAndUpdate db1 newId
                                     (\<lambda>d. d\<lparr>path := newPath, filename := newFilename\<rparr>),
                                   disk1)))
           in case renamed of
                Inl err \<Rightarrow> (Inl err, w\<lparr>db := db1\<rparr>, None)
              | Inr (validatedData', db2, disk2) \<Rightarrow>
                  (let (db3, job) =
                     (if enableCompression \<and> ENABLE_FILE_COMPRESSION e then
                        (let existingFolderPath = map_option fi_folderPath folderInfo';
                             shouldCompress =
                               shouldCompressFile e (mimetype validatedData')
                                 (fileSize validatedData') (uploadOptions e)
                         in if shouldCompress then
                              (findByIdAndUpdate db2 newId (\<lambda>d. d\<lparr>compressionInfo :=
                                 \<lparr> compressed = False,
                                   info_originalSize = fileSize validatedData',
                                   info_compressedSize = None, info_savingsPercentage = None,
                                   info_compressionType = None, info_folderId = None,
                                   compressionStatus = Processing \<rparr>\<rparr>),
                               Some (\<lambda>w'.
                                 (let (fs', c') =
                                    compressFileAsync e sharp gzip uuid uploadDir
                                      (path validatedData') (mimetype validatedData')
                                      (fileSize validatedData') (uploadedBy validatedData') newId
                                      (uploadOptions e)
                                      (Some (onComplete newId (fileSize validatedData') folderInfo'))
                                      existingFolderPath (disk w') (db w')
                                  in \<lparr> db = c', disk = fs' \<rparr>)))
                            else
                              (findByIdAndUpdate db2 newId (\<lambda>d. d\<lparr>compressionInfo :=
                                 \<lparr> compressed = False,
                                   info_originalSize = fileSize validatedData',
                                   info_compressedSize = None, info_savingsPercentage = None,
                                   info_compressionType = None,
                                   info_folderId = map_option fi_folderId folderInfo',
                                   compressionStatus = Not_needed \<rparr>\<rparr>),
                               None))
                      else (db2, None))
                   in (Inr (findById db3 newId), \<lparr> db = db3, disk = disk2 \<rparr>, job))))"

subsection \<open>Deletion and the sweep of expired files\<close>

text \<open>
  \<open>rejects fileId\<close> says that the store's \<^verbatim>\<open>findByIdAndDelete\<close> rejects for that id
  (a driver or connection error): the one way \<^verbatim>\<open>deleteFile\<close> can throw for a document
  that exists and that the caller may delete.
\<close>

definition deleteFile ::
  "(string \<Rightarrow> bool) \<Rightarrow> world \<Rightarrow> string \<Rightarrow> string \<Rightarrow> string option \<Rightarrow> (error + unit) \<times> world" where
  "deleteFile rejects w fileId userId userRole =
     (case findById (db w) fileId of
        None \<Rightarrow> (Inl (APIError 404 ''File Not Found'' ''File not found''), w)
      | Some file \<Rightarrow>
          if uploadedBy file \<noteq> userId \<and> userRole \<noteq> Some ''admin''
          then (Inl AUTHORIZATION_ERROR, w)
          else
            (let disk1 = (case unlink (disk w) (path file) of Inl _ \<Rightarrow> disk w | Inr d \<Rightarrow> d)
             in if rejects fileId then (Inl (Error ''MongoError''), w\<lparr>disk := disk1\<rparr>)
                else (Inr (), \<lparr> db = findByIdAndDelete (db w) fileId, disk = disk1 \<rparr>)))"

text \<open>The \<^verbatim>\<open>for\<close> loop of \<^verbatim>\<open>cleanupExpiredFiles\<close> over the ids found, with its counter.\<close>

fun sweep :: "(string \<Rightarrow> bool) \<Rightarrow> world \<Rightarrow> string list \<Rightarrow> nat \<Rightarrow> nat \<times> world" where
  "sweep rejects w [] deletedCount = (deletedCount, w)"
| "sweep rejects w (fileId # rest) deletedCount =
     (case deleteFile rejects w fileId ''system'' (Some ''admin'') of
        (Inl _, w') \<Rightarrow> sweep rejects w' rest deletedCount
      | (Inr _, w') \<Rightarrow> sweep rejects w' rest (Suc deletedCount))"

definition cleanupExpiredFiles ::
  "(string \<Rightarrow> bool) \<Rightarrow> int \<Rightarrow> world \<Rightarrow> string option \<Rightarrow> (error + nat) \<times> world" where
  "cleanupExpiredFiles rejects now w userRole =
     (if userRole \<noteq> Some ''admin''
      then (Inl (APIError 401 ''Access Denied''
                   ''Only administrators can cleanup expired files''), w)
      else (let expiredFiles = findExpired (db w) now;
                (deletedCount, w') = sweep rejects w (map fst expiredFiles) 0
            in (Inr deletedCount, w')))"

subsection \<open>Archives: \<^verbatim>\<open>compressFiles\<close>\<close>

definition validateFileAccess :: "collection \<Rightarrow> string \<Rightarrow> string \<Rightarrow> string option \<Rightarrow> bool" where
  "validateFileAccess c fileId userId userRole =
     (case findById c fileId of
        None \<Rightarrow> False
      | Some file \<Rightarrow> canAccessFile file userId userRole)"

text \<open>The first loop of \<^verbatim>\<open>compressFiles\<close>: it throws at the first id without access.\<close>

fun validateAll :: "collection \<Rightarrow> string list \<Rightarrow> string \<Rightarrow> string option \<Rightarrow> error + unit" where
  "validateAll c [] userId userRole = Inr ()"
| "validateAll c (fileId # rest) userId userRole =
     (if \<not> validateFileAccess c fileId userId userRole
      then Inl (APIError 401 ''Access Denied'' (''No access to file '' @ fileId))
      else validateAll c rest userId userRole)"

text \<open>
  The archive library is outside the repository: \<open>archiver entries\<close> is the size of the
  finished archive for the entries (file path, name in the archive), \<^term>\<open>None\<close> when it
  emits an error. \<open>timestamp\<close> is the ISO time with its colons and dots replaced.
  \<^verbatim>\<open>createWriteStream\<close> creates the archive file when it opens.
\<close>

type_synonym archiver = "(path \<times> string) list \<Rightarrow> nat option"

fun archiveEntries :: "path \<Rightarrow> file_doc option list \<Rightarrow> (path \<times> string) list option" where
  "archiveEntries uploadDir [] = Some []"
| "archiveEntries uploadDir (None # rest) = None"
| "archiveEntries uploadDir (Some file # rest) =
     (case archiveEntries uploadDir rest of
        None \<Rightarrow> None
      | Some es \<Rightarrow> Some ((path_join uploadDir (filename file), originalName file) # es))"

definition compressFiles ::
  "path \<Rightarrow> string \<Rightarrow> archiver \<Rightarrow> world \<Rightarrow> string list \<Rightarrow> string \<Rightarrow> string option \<Rightarrow>
   string option \<Rightarrow> (error + path \<times> nat \<times> nat) \<times> world" where
  "compressFiles uploadDir timestamp archiver w fileIds userId userRole archiveName =
     (case validateAll (db w) fileIds userId userRole of
        Inl err \<Rightarrow> (Inl err, w)
      | Inr _ \<Rightarrow>
          (let files' = map (findById (db w)) fileIds;
               generated = ''archive_'' @ timestamp @ ''.zip'';
               archiveFilename =
                 (case archiveName of None \<Rightarrow> generated
                  | Some n \<Rightarrow> if n = [] then generated else n);
               archivePath = path_join uploadDir archiveFilename
           in case writeFile (disk w) archivePath of
                Inl err \<Rightarrow> (Inl err, w)
              | Inr disk1 \<Rightarrow>
                  (case archiveEntries uploadDir files' of
                     None \<Rightarrow> (Inl (Error ''TypeError''), w\<lparr>disk := disk1\<rparr>)
                   | Some entries \<Rightarrow>
                       (case archiver entries of
                          None \<Rightarrow> (Inl (Error ''archive''), w\<lparr>disk := disk1\<rparr>)
                        | Some archiveSize \<Rightarrow>
                            (Inr (archivePath, archiveSize, length files'),
                             w\<lparr>disk := disk1\<rparr>)))))"

section \<open>A sample configuration and disk\<close>

text \<open>
  The default environment, a disk holding one upload in its folder, and an image library
  that returns a PNG of 900 bytes and a WebP of 500 bytes; the concrete runs below use them.
\<close>

definition env0 :: env where
  "env0 = \<lparr> ENABLE_FILE_COMPRESSION = True, COMPRESSION_QUALITY = 85,
         COMPRESSION_THRESHOLD_SIZE = 300000, COMPRESS_IMAGE_TYPES = True,
         COMPRESS_PDF_TYPES = False, COMPRESS_TEXT_TYPES = True \<rparr>"

definition disk0 :: filesystem where
  "disk0 = \<lparr> files = {''/uploads/f1/u1_tmp.jpg''}, dirs = {''/uploads'', ''/uploads/f1''} \<rparr>"

definition sharp0 :: sharp where
  "sharp0 = (\<lambda>p opts. Some (900, 500))"

text \<open>
  A collection of four documents (three of them expired at time 100) with their files, an
  image upload in its folder, a text upload, and libraries that throw on every input.
\<close>

definition sampleDoc :: "string \<Rightarrow> bool \<Rightarrow> path \<Rightarrow> int option \<Rightarrow> file_doc" where
  "sampleDoc owner public p expires =
     \<lparr> isPublic = public, uploadedBy = owner, originalName = ''report.pdf'',
       filename = ''report.pdf'', mimetype = ''application/pdf'', fileSize = 1000, path = p,
       expiresAt = expires,
       compressionInfo =
         \<lparr> compressed = False, info_originalSize = 1000, info_compressedSize = None,
           info_savingsPercentage = None, info_compressionType = None, info_folderId = None,
           compressionStatus = Not_needed \<rparr> \<rparr>"

definition world0 :: world where
  "world0 =
     \<lparr> db = [(''a'', sampleDoc ''u1'' False ''/uploads/a.pdf'' (Some 10)),
              (''b'', sampleDoc ''u2'' False ''/uploads/b.pdf'' (Some 20)),
              (''c'', sampleDoc ''u1'' True ''/uploads/c.pdf'' None),
              (''d'', sampleDoc ''u2'' False ''/uploads/d.pdf'' (Some 30))],
       disk = \<lparr> files = {''/uploads/a.pdf'', ''/uploads/b.pdf'', ''/uploads/c.pdf'',
                          ''/uploads/d.pdf''},
                dirs = {''/uploads''} \<rparr> \<rparr>"

definition upload0 :: FileInput where
  "upload0 = \<lparr> isPublic = False, uploadedBy = ''u1'', originalName = ''photo.png'',
     filename = ''u1_tmp.png'', mimetype = ''image/png'', fileSize = 2000000,
     path = ''/uploads/f1/u1_tmp.png'', expiresAt = None \<rparr>"

definition folder0 :: folderInfo where
  "folder0 = \<lparr> fi_folderId = ''f1'', fi_folderPath = ''/uploads/f1'', fi_userId = ''u1'',
     fi_tempFileId = ''tmp'' \<rparr>"

definition start0 :: world where
  "start0 = \<lparr> db = [],
     disk = \<lparr> files = {''/uploads/f1/u1_tmp.png''}, dirs = {''/uploads'', ''/uploads/f1''} \<rparr> \<rparr>"

definition uploadCsv :: FileInput where
  "uploadCsv = \<lparr> isPublic = False, uploadedBy = ''u1'', originalName = ''data.csv'',
     filename = ''u1_tmp.csv'', mimetype = ''text/csv'', fileSize = 400000,
     path = ''/uploads/u1_tmp.csv'', expiresAt = None \<rparr>"

definition startCsv :: world where
  "startCsv = \<lparr> db = [],
     disk = \<lparr> files = {''/uploads/u1_tmp.csv''}, dirs = {''/uploads''} \<rparr> \<rparr>"

definition sharpThrows :: sharp where
  "sharpThrows = (\<lambda>p opts. None)"

definition gzipThrows :: gzip where
  "gzipThrows = (\<lambda>p. None)"

section \<open>Properties\<close>

subsection \<open>Access control\<close>

text \<open>
  C1. For every file record and every requester, \<^verbatim>\<open>canAccessFile\<close> is true exactly
  when the file is public, or the requester uploaded it, or the requester's role is
  \<^verbatim>\<open>admin\<close>; \<^verbatim>\<open>canDownloadFile\<close> returns the same boolean on every input. The
  two URL methods of the document return a URL exactly in that case.
\<close>

theorem canAccessFile_iff:
  "canAccessFile file userId userRole =
     (isPublic file \<or> uploadedBy file = userId \<or> userRole = Some ''admin'')
   \<and> canDownloadFile file userId userRole = canAccessFile file userId userRole
   \<and> (getFileUrl file fid userId userRole \<noteq> None) = canAccessFile file userId userRole
   \<and> (getDownloadUrl file fid userId userRole \<noteq> None) = canAccessFile file userId userRole"
  by (simp add: canAccessFile_def canDownloadFile_def getFileUrl_def getDownloadUrl_def)

subsection \<open>Eligibility\<close>

lemma isImageType_png: "isImageType ''image/png''"
  by (simp add: isImageType_def startsWith_def)

lemma isTextType_pdf: "\<not> isTextType ''application/pdf''"
  by (simp add: isTextType_def startsWith_def)

lemma isImageType_pdf: "\<not> isImageType ''application/pdf''"
  by (simp add: isImageType_def startsWith_def)

text \<open>
  C2. An image mimetype (one starting with \<^verbatim>\<open>image/\<close>) is eligible at every size,
  whatever the threshold, as soon as \<^verbatim>\<open>options.compressImages\<close> is true.
\<close>

theorem shouldCompressFile_image:
  assumes "isImageType mime" and "compressImages opts = Some True"
  shows "shouldCompressFile e mime size' opts = True"
  using assms by (simp add: shouldCompressFile_def orDefault_def)

theorem shouldCompressFile_image_witness:
  "isImageType ''image/png''
   \<and> compressImages (noOptions\<lparr>compressImages := Some True\<rparr>) = Some True
   \<and> shouldCompressFile
       \<lparr> ENABLE_FILE_COMPRESSION = True, COMPRESSION_QUALITY = 85,
         COMPRESSION_THRESHOLD_SIZE = 300000, COMPRESS_IMAGE_TYPES = False,
         COMPRESS_PDF_TYPES = False, COMPRESS_TEXT_TYPES = True \<rparr>
       ''image/png'' 1 (noOptions\<lparr>compressImages := Some True\<rparr>) = True"
  using shouldCompressFile_image [of "''image/png''" "noOptions\<lparr>compressImages := Some True\<rparr>"]
  by (simp add: isImageType_png noOptions_def)

text \<open>
  C3. \<^verbatim>\<open>application/pdf\<close> is never eligible: for every size, every options value
  (also with \<^verbatim>\<open>compressPdfs\<close> true and the size above the threshold) and every
  environment the result is false.
\<close>

theorem shouldCompressFile_pdf:
  "shouldCompressFile e ''application/pdf'' size' opts = False"
  by (simp add: shouldCompressFile_def Let_def isTextType_pdf isImageType_pdf)

subsection \<open>Image transcoding\<close>

lemma writeBoth_Inr:
  "writeBoth fs a b = (Inr u, fs1) \<Longrightarrow>
     files fs1 = insert b (insert a (files fs)) \<and> dirs fs1 = dirs fs"
  by (auto simp: writeBoth_def writeFile_def Let_def split: if_splits)

lemma writeBoth_Inl:
  "writeBoth fs a b = (Inl err, fs1) \<Longrightarrow> files fs \<subseteq> files fs1 \<and> dirs fs1 = dirs fs"
  by (auto simp: writeBoth_def writeFile_def Let_def split: if_splits)

lemma writeBoth_ok:
  "dirname a \<in> dirs fs \<Longrightarrow> a \<notin> dirs fs \<Longrightarrow> dirname b \<in> dirs fs \<Longrightarrow> b \<notin> dirs fs \<Longrightarrow>
   writeBoth fs a b = (Inr (), fs\<lparr>files := insert b (insert a (files fs))\<rparr>)"
  by (simp add: writeBoth_def writeFile_def Let_def)

lemma cleanupOriginal_files:
  "files (cleanupOriginal fs fp png webp folder) =
     (if fp \<in> files fs \<and> fp \<noteq> png \<and> fp \<noteq> webp then files fs - {fp} else files fs)"
  by (auto simp: cleanupOriginal_def access_def unlink_def readdir_def rmdir_def Let_def
      split: if_splits sum.splits)

lemma cleanupOriginal_folder:
  assumes "fp \<notin> dirs fs"
  shows "\<not> (folder \<in> dirs (cleanupOriginal fs fp png webp folder) \<and>
     {p \<in> files (cleanupOriginal fs fp png webp folder) \<union> dirs (cleanupOriginal fs fp png webp folder).
        dirname p = folder} = {})"
  using assms
  by (auto simp: cleanupOriginal_def access_def unlink_def readdir_def rmdir_def Let_def
      split: if_splits sum.splits)

lemma compressImage_cases:
  "compressImage e sharp fs filePath folderPath userId fileId orig opts = (res, fs') \<Longrightarrow>
   (\<exists>err. res = Inl err \<and> files fs \<subseteq> files fs' \<and> dirs fs' = dirs fs) \<or>
   (\<exists>p w fs1 u. filePath \<in> files fs \<and>
      sharp filePath (orDefault (quality opts) (COMPRESSION_QUALITY e),
                      orDefault (maxWidth opts) 1920, orDefault (maxHeight opts) 1080) = Some (p, w) \<and>
      writeBoth fs (path_join folderPath (generateFilename userId fileId ''png''))
                   (path_join folderPath (generateFilename userId fileId ''webp'')) = (Inr u, fs1) \<and>
      fs' = cleanupOriginal fs1 filePath (path_join folderPath (generateFilename userId fileId ''png''))
                   (path_join folderPath (generateFilename userId fileId ''webp'')) folderPath \<and>
      res = Inr \<lparr> originalSize = orig,
                  compressedSize = fst (snd (chooseBest p w orig)),
                  compressionRatio = snd (snd (chooseBest p w orig)),
                  savingsPercentage = ((orig - fst (snd (chooseBest p w orig))) / orig) * 100,
                  compressionType = fst (chooseBest p w orig),
                  compressedPaths = Some (path_join folderPath (generateFilename userId fileId ''png''),
                                          path_join folderPath (generateFilename userId fileId ''webp'')),
                  folderId = basename folderPath \<rparr>)"
  unfolding compressImage_def Let_def
  by (auto split: option.splits prod.splits sum.splits if_splits dest: writeBoth_Inl)

lemma compressImage_ok:
  assumes "filePath \<in> files fs"
    and "sharp filePath (orDefault (quality opts) (COMPRESSION_QUALITY e),
                      orDefault (maxWidth opts) 1920, orDefault (maxHeight opts) 1080) = Some (p, w)"
    and "writeBoth fs (path_join folderPath (generateFilename userId fileId ''png''))
                   (path_join folderPath (generateFilename userId fileId ''webp'')) = (Inr (), fs1)"
  shows "compressImage e sharp fs filePath folderPath userId fileId orig opts =
    (Inr \<lparr> originalSize = orig,
                  compressedSize = fst (snd (chooseBest p w orig)),
                  compressionRatio = snd (snd (chooseBest p w orig)),
                  savingsPercentage = ((orig - fst (snd (chooseBest p w orig))) / orig) * 100,
                  compressionType = fst (chooseBest p w orig),
                  compressedPaths = Some (path_join folderPath (generateFilename userId fileId ''png''),
                                          path_join folderPath (generateFilename userId fileId ''webp'')),
                  folderId = basename folderPath \<rparr>,
     cleanupOriginal fs1 filePath (path_join folderPath (generateFilename userId fileId ''png''))
                   (path_join folderPath (generateFilename userId fileId ''webp'')) folderPath)"
  using assms unfolding compressImage_def Let_def
  by (simp split: prod.splits)

lemma chooseBest_type:
  assumes "0 < orig"
  shows "fst (chooseBest p w orig) =
           (if real w / orig < real p / orig \<and> real w / orig < 0.95 then Webp
            else if real p / orig < 0.95 then Png
            else if w < p then Webp else Png)"
  using assms by (simp add: chooseBest_def Let_def divide_less_cancel)

lemma chooseBest_size:
  assumes "0 < orig"
  shows "fst (snd (chooseBest p w orig)) = (if fst (chooseBest p w orig) = Webp then real w else real p)"
  using assms by (auto simp: chooseBest_def Let_def divide_less_cancel min_def)

lemma chooseBest_min:
  assumes "\<not> (real w / orig < real p / orig \<and> real w / orig < 0.95)" "\<not> real p / orig < 0.95"
  shows "fst (snd (chooseBest p w orig)) = real (min p w)"
  using assms by (auto simp: chooseBest_def Let_def)

lemma png0: "path_join ''/uploads/f1'' (generateFilename ''u1'' ''42'' ''png'') = ''/uploads/f1/u1_42.png''"
  by (simp add: path_join_def generateFilename_def)

lemma webp0: "path_join ''/uploads/f1'' (generateFilename ''u1'' ''42'' ''webp'') = ''/uploads/f1/u1_42.webp''"
  by (simp add: path_join_def generateFilename_def)

lemma dirname_png0: "dirname ''/uploads/f1/u1_42.png'' = ''/uploads/f1''"
  by (simp add: dirname_def)

lemma dirname_webp0: "dirname ''/uploads/f1/u1_42.webp'' = ''/uploads/f1''"
  by (simp add: dirname_def)

lemma writeBoth0:
  "writeBoth disk0 ''/uploads/f1/u1_42.png'' ''/uploads/f1/u1_42.webp'' =
     (Inr (), disk0\<lparr>files := insert ''/uploads/f1/u1_42.webp''
                         (insert ''/uploads/f1/u1_42.png'' (files disk0))\<rparr>)"
  by (rule writeBoth_ok) (simp_all add: dirname_png0 dirname_webp0 disk0_def)

lemma run0:
  "\<exists>r fs'. compressImage env0 sharp0 disk0 ''/uploads/f1/u1_tmp.jpg'' ''/uploads/f1'' ''u1'' ''42''
      1000 noOptions = (Inr r, fs')"
proof -
  have "''/uploads/f1/u1_tmp.jpg'' \<in> files disk0" by (simp add: disk0_def)
  moreover have "sharp0 ''/uploads/f1/u1_tmp.jpg''
      (orDefault (quality noOptions) (COMPRESSION_QUALITY env0),
       orDefault (maxWidth noOptions) 1920, orDefault (maxHeight noOptions) 1080) = Some (900, 500)"
    by (simp add: sharp0_def)
  ultimately show ?thesis
    using compressImage_ok [where fs = disk0 and sharp = sharp0 and e = env0 and opts = noOptions
        and folderPath = "''/uploads/f1''" and userId = "''u1''" and fileId = "''42''" and orig = 1000]
      writeBoth0
    by (simp only: png0 webp0) blast
qed

text \<open>
  C4. For a successful image transcode with PNG size \<open>p\<close>, WebP size \<open>w\<close> and a
  positive original size \<open>orig\<close>: the primary type is WebP if \<open>w/orig < p/orig\<close> and
  \<open>w/orig < 0.95\<close>; otherwise PNG if \<open>p/orig < 0.95\<close>; otherwise the format of the
  smaller size (PNG on a tie). The reported size is the chosen derivative's size, which is
  \<open>min p w\<close> in the last case, and the savings are \<open>(orig - size) / orig * 100\<close>.
  Numbers are exact here, not floating point.
\<close>

theorem compressImage_primary:
  assumes run: "compressImage e sharp fs filePath folderPath userId fileId orig opts = (Inr r, fs')"
    and sizes: "sharp filePath (orDefault (quality opts) (COMPRESSION_QUALITY e),
                  orDefault (maxWidth opts) 1920, orDefault (maxHeight opts) 1080) = Some (p, w)"
    and pos: "0 < orig"
  shows "compressionType r =
           (if real w / orig < real p / orig \<and> real w / orig < 0.95 then Webp
            else if real p / orig < 0.95 then Png
            else if w < p then Webp else Png)
       \<and> compressedSize r = (if compressionType r = Webp then real w else real p)
       \<and> (\<not> (real w / orig < real p / orig \<and> real w / orig < 0.95) \<and> \<not> real p / orig < 0.95
            \<longrightarrow> compressedSize r = real (min p w))
       \<and> savingsPercentage r = (orig - compressedSize r) / orig * 100"
proof -
  from compressImage_cases [OF run] sizes
  have r: "r = \<lparr> originalSize = orig,
                  compressedSize = fst (snd (chooseBest p w orig)),
                  compressionRatio = snd (snd (chooseBest p w orig)),
                  savingsPercentage = ((orig - fst (snd (chooseBest p w orig))) / orig) * 100,
                  compressionType = fst (chooseBest p w orig),
                  compressedPaths = Some (path_join folderPath (generateFilename userId fileId ''png''),
                                          path_join folderPath (generateFilename userId fileId ''webp'')),
                  folderId = basename folderPath \<rparr>"
    by auto
  have t: "compressionType r = fst (chooseBest p w orig)"
    and s: "compressedSize r = fst (snd (chooseBest p w orig))"
    and v: "savingsPercentage r = (orig - compressedSize r) / orig * 100"
    by (simp_all add: r)
  show ?thesis
    using chooseBest_type [OF pos, of p w] chooseBest_size [OF pos, of p w]
      chooseBest_min [of w orig p] t s v
    by simp
qed

theorem compressImage_primary_witness:
  "\<exists>r fs'. compressImage env0 sharp0 disk0 ''/uploads/f1/u1_tmp.jpg'' ''/uploads/f1'' ''u1'' ''42''
      1000 noOptions = (Inr r, fs')
     \<and> compressionType r = Webp \<and> compressedSize r = 500 \<and> savingsPercentage r = 50"
proof -
  from run0 obtain r fs' where
    run: "compressImage env0 sharp0 disk0 ''/uploads/f1/u1_tmp.jpg'' ''/uploads/f1'' ''u1'' ''42''
      1000 noOptions = (Inr r, fs')" by blast
  have sizes: "sharp0 ''/uploads/f1/u1_tmp.jpg''
      (orDefault (quality noOptions) (COMPRESSION_QUALITY env0),
       orDefault (maxWidth noOptions) 1920, orDefault (maxHeight noOptions) 1080) = Some (900, 500)"
    by (simp add: sharp0_def)
  have pos: "(0::real) < 1000" by simp
  from compressImage_primary [OF run sizes pos]
  have "compressionType r = Webp \<and> compressedSize r = 500 \<and> savingsPercentage r = 50"
    by auto
  with run show ?thesis by blast
qed

text \<open>
  C9. When the original upload exists as a file before an image transcode, it is gone
  afterwards exactly when the transcode succeeded and its path is neither the PNG
  derivative's nor the WebP derivative's; a transcode succeeds only after both writes have
  succeeded, and then both derivatives are on the disk. After a successful transcode the
  folder is not left behind as an existing empty directory.
\<close>

theorem compressImage_original_removal:
  assumes run: "compressImage e sharp fs filePath folderPath userId fileId orig opts = (res, fs')"
    and ex: "filePath \<in> files fs"
    and nd: "filePath \<notin> dirs fs"
  shows "(filePath \<notin> files fs') =
           (\<not> isl res
            \<and> filePath \<noteq> path_join folderPath (generateFilename userId fileId ''png'')
            \<and> filePath \<noteq> path_join folderPath (generateFilename userId fileId ''webp''))
       \<and> (\<not> isl res \<longrightarrow>
            path_join folderPath (generateFilename userId fileId ''png'') \<in> files fs'
            \<and> path_join folderPath (generateFilename userId fileId ''webp'') \<in> files fs')
       \<and> (\<not> isl res \<longrightarrow>
            \<not> (folderPath \<in> dirs fs' \<and> {p \<in> files fs' \<union> dirs fs'. dirname p = folderPath} = {}))"
proof -
  let ?png = "path_join folderPath (generateFilename userId fileId ''png'')"
  let ?webp = "path_join folderPath (generateFilename userId fileId ''webp'')"
  from compressImage_cases [OF run]
  consider (fail) err where "res = Inl err" "files fs \<subseteq> files fs'"
    | (ok) r u fs1 where "res = Inr r" "writeBoth fs ?png ?webp = (Inr u, fs1)"
        "fs' = cleanupOriginal fs1 filePath ?png ?webp folderPath"
    by blast
  then show ?thesis
  proof cases
    case fail
    with ex show ?thesis by auto
  next
    case ok
    from writeBoth_Inr [OF ok(2)]
    have f1: "files fs1 = insert ?webp (insert ?png (files fs))" and d1: "dirs fs1 = dirs fs"
      by simp_all
    have nd1: "filePath \<notin> dirs fs1" using nd d1 by simp
    have files': "files fs' =
        (if filePath \<noteq> ?png \<and> filePath \<noteq> ?webp then files fs1 - {filePath} else files fs1)"
      using ex by (simp add: ok(3) cleanupOriginal_files f1)
    have a: "(filePath \<notin> files fs') = (filePath \<noteq> ?png \<and> filePath \<noteq> ?webp)"
      using ex by (auto simp: files' f1)
    have b: "?png \<in> files fs' \<and> ?webp \<in> files fs'"
      by (auto simp: files' f1)
    have c: "\<not> (folderPath \<in> dirs fs' \<and> {p \<in> files fs' \<union> dirs fs'. dirname p = folderPath} = {})"
      unfolding ok(3) by (rule cleanupOriginal_folder [OF nd1])
    show ?thesis using a b c by (simp add: ok(1))
  qed
qed

theorem compressImage_original_removal_witness:
  "''/uploads/f1/u1_tmp.jpg'' \<in> files disk0
   \<and> ''/uploads/f1/u1_tmp.jpg'' \<notin> dirs disk0
   \<and> \<not> isl (fst (compressImage env0 sharp0 disk0 ''/uploads/f1/u1_tmp.jpg'' ''/uploads/f1''
                ''u1'' ''42'' 1000 noOptions))
   \<and> ''/uploads/f1/u1_tmp.jpg'' \<notin> files (snd (compressImage env0 sharp0 disk0
        ''/uploads/f1/u1_tmp.jpg'' ''/uploads/f1'' ''u1'' ''42'' 1000 noOptions))
   \<and> ''/uploads/f1/u1_42.png'' \<in> files (snd (compressImage env0 sharp0 disk0
        ''/uploads/f1/u1_tmp.jpg'' ''/uploads/f1'' ''u1'' ''42'' 1000 noOptions))
   \<and> ''/uploads/f1/u1_42.webp'' \<in> files (snd (compressImage env0 sharp0 disk0
        ''/uploads/f1/u1_tmp.jpg'' ''/uploads/f1'' ''u1'' ''42'' 1000 noOptions))"
proof -
  from run0 obtain r fs' where
    run: "compressImage env0 sharp0 disk0 ''/uploads/f1/u1_tmp.jpg'' ''/uploads/f1'' ''u1'' ''42''
      1000 noOptions = (Inr r, fs')" by blast
  have ex: "''/uploads/f1/u1_tmp.jpg'' \<in> files disk0" by (simp add: disk0_def)
  have nd: "''/uploads/f1/u1_tmp.jpg'' \<notin> dirs disk0" by (simp add: disk0_def)
  from compressImage_original_removal [OF run ex nd]
  show ?thesis using ex nd by (simp add: run png0 webp0)
qed

subsection \<open>The sweep of expired files\<close>

lemma map_of_delete_other:
  "j \<noteq> i \<Longrightarrow> map_of (findByIdAndDelete c i) j = map_of c j"
  by (induction c) (auto simp: findByIdAndDelete_def)

lemma unlink_files:
  "files (case unlink fs p of Inl _ \<Rightarrow> fs | Inr d \<Rightarrow> d) = files fs - {p}"
  by (auto simp: unlink_def)

lemma unlink_dirs:
  "dirs (case unlink fs p of Inl _ \<Rightarrow> fs | Inr d \<Rightarrow> d) = dirs fs"
  by (auto simp: unlink_def)

lemma deleteFile_admin:
  assumes "map_of (db w) i = Some d"
  shows "fst (deleteFile rejects w i ''system'' (Some ''admin'')) =
           (if rejects i then Inl (Error ''MongoError'') else Inr ())"
    and "db (snd (deleteFile rejects w i ''system'' (Some ''admin''))) =
           (if rejects i then db w else findByIdAndDelete (db w) i)"
    and "files (disk (snd (deleteFile rejects w i ''system'' (Some ''admin'')))) =
           files (disk w) - {path d}"
    and "dirs (disk (snd (deleteFile rejects w i ''system'' (Some ''admin'')))) = dirs (disk w)"
  using assms
  by (simp_all add: deleteFile_def findById_def Let_def unlink_files unlink_dirs)

lemma sweep_spec:
  assumes "distinct ids" and "\<forall>i\<in>set ids. map_of (db w) i \<noteq> None"
  shows "fst (sweep rejects w ids n) = n + length (filter (\<lambda>i. \<not> rejects i) ids)
    \<and> db (snd (sweep rejects w ids n)) =
        filter (\<lambda>(k, d). \<not> (k \<in> set ids \<and> \<not> rejects k)) (db w)
    \<and> files (disk (snd (sweep rejects w ids n))) =
        files (disk w) - {path d |k d. k \<in> set ids \<and> map_of (db w) k = Some d}
    \<and> dirs (disk (snd (sweep rejects w ids n))) = dirs (disk w)"
  using assms
proof (induction ids arbitrary: w n)
  case Nil
  then show ?case by simp
next
  case (Cons i ids)
  from Cons.prems obtain d where d: "map_of (db w) i = Some d" by auto
  obtain r w1 where del: "deleteFile rejects w i ''system'' (Some ''admin'') = (r, w1)"
    by (cases "deleteFile rejects w i ''system'' (Some ''admin'')")
  from deleteFile_admin [OF d, of rejects] del
  have r: "r = (if rejects i then Inl (Error ''MongoError'') else Inr ())"
    and db1: "db w1 = (if rejects i then db w else findByIdAndDelete (db w) i)"
    and f1: "files (disk w1) = files (disk w) - {path d}"
    and d1: "dirs (disk w1) = dirs (disk w)"
    by simp_all
  have same: "\<And>j. j \<in> set ids \<Longrightarrow> map_of (db w1) j = map_of (db w) j"
  proof -
    fix j assume "j \<in> set ids"
    with Cons.prems(1) have "j \<noteq> i" by auto
    then show "map_of (db w1) j = map_of (db w) j"
      by (simp add: db1 map_of_delete_other)
  qed
  have pre: "distinct ids" "\<forall>j\<in>set ids. map_of (db w1) j \<noteq> None"
    using Cons.prems same by auto
  note IH = Cons.IH [OF pre]
  have sw: "sweep rejects w (i # ids) n =
      sweep rejects w1 ids (if rejects i then n else Suc n)"
    by (simp add: del r)
  have setEq: "{path d' |k d'. k \<in> set ids \<and> map_of (db w1) k = Some d'} =
      {path d' |k d'. k \<in> set ids \<and> map_of (db w) k = Some d'}"
    by (simp add: same cong: conj_cong)
  have A: "fst (sweep rejects w (i # ids) n) = n + length (filter (\<lambda>i. \<not> rejects i) (i # ids))"
    unfolding sw using IH [of "if rejects i then n else Suc n"] by simp
  have B: "db (snd (sweep rejects w (i # ids) n)) =
        filter (\<lambda>(k, d). \<not> (k \<in> set (i # ids) \<and> \<not> rejects k)) (db w)"
    unfolding sw using IH [of "if rejects i then n else Suc n"]
    by (auto simp: db1 findByIdAndDelete_def intro!: filter_cong)
  have C: "files (disk (snd (sweep rejects w (i # ids) n))) =
        files (disk w) - {path d |k d. k \<in> set (i # ids) \<and> map_of (db w) k = Some d}"
    unfolding sw using IH [of "if rejects i then n else Suc n"] d
    by (auto simp: setEq f1)
  have D: "dirs (disk (snd (sweep rejects w (i # ids) n))) = dirs (disk w)"
    unfolding sw using IH [of "if rejects i then n else Suc n"] by (simp add: d1)
  show ?case using A B C D by blast
qed

lemma findExpired_keys:
  assumes "distinct (map fst c)" and "(k, d) \<in> set c"
  shows "(k \<in> set (map fst (findExpired c now))) = isExpiredAt now d"
proof
  assume "k \<in> set (map fst (findExpired c now))"
  then obtain d' where "(k, d') \<in> set c" "isExpiredAt now d'"
    by (auto simp: findExpired_def)
  with assms show "isExpiredAt now d"
    using eq_key_imp_eq_value by fastforce
next
  assume "isExpiredAt now d"
  with assms(2) show "k \<in> set (map fst (findExpired c now))"
    by (force simp: findExpired_def)
qed

text \<open>
  C8. Called with the admin role on a collection with distinct ids,
  \<^verbatim>\<open>cleanupExpiredFiles\<close> goes through every expired document: the bytes of each one
  are unlinked, each one whose deletion does not throw is removed from the collection, the
  others and all documents that are not expired stay, and the count returned is the number
  of expired documents minus the number of deletions that threw (\<open>N - 1\<close> when one of
  \<open>N\<close> throws).
\<close>

theorem cleanupExpiredFiles_sweep:
  assumes dist: "distinct (map fst (db w))"
  shows "fst (cleanupExpiredFiles rejects now w (Some ''admin'')) =
           Inr (length (findExpired (db w) now)
                - length (filter (\<lambda>(k, d). rejects k) (findExpired (db w) now)))
       \<and> db (snd (cleanupExpiredFiles rejects now w (Some ''admin''))) =
           filter (\<lambda>(k, d). \<not> (isExpiredAt now d \<and> \<not> rejects k)) (db w)
       \<and> files (disk (snd (cleanupExpiredFiles rejects now w (Some ''admin'')))) =
           files (disk w) - (\<lambda>(k, d). path d) ` set (findExpired (db w) now)
       \<and> dirs (disk (snd (cleanupExpiredFiles rejects now w (Some ''admin'')))) = dirs (disk w)"
proof -
  let ?E = "findExpired (db w) now"
  let ?ids = "map fst ?E"
  have dids: "distinct ?ids"
    using dist by (simp add: findExpired_def distinct_map_filter)
  have found: "\<forall>i\<in>set ?ids. map_of (db w) i \<noteq> None"
  proof
    fix i assume "i \<in> set ?ids"
    then have "i \<in> fst ` set (db w)" by (auto simp: findExpired_def)
    then show "map_of (db w) i \<noteq> None" by (simp add: map_of_eq_None_iff)
  qed
  note S = sweep_spec [OF dids found, of rejects 0]
  have res: "cleanupExpiredFiles rejects now w (Some ''admin'') =
      (Inr (fst (sweep rejects w ?ids 0)), snd (sweep rejects w ?ids 0))"
    by (simp add: cleanupExpiredFiles_def Let_def split: prod.splits)
  have cnt: "length (filter (\<lambda>i. \<not> rejects i) ?ids) =
      length ?E - length (filter (\<lambda>(k, d). rejects k) ?E)"
  proof -
    have "length (filter (\<lambda>i. \<not> rejects i) ?ids) = length (filter (\<lambda>(k, d). \<not> rejects k) ?E)"
      by (simp add: filter_map o_def case_prod_unfold)
    moreover have "length (filter (\<lambda>(k, d). rejects k) ?E)
        + length (filter (\<lambda>(k, d). \<not> rejects k) ?E) = length ?E"
      using sum_length_filter_compl [of "\<lambda>(k, d). rejects k" ?E]
      by (simp add: case_prod_unfold)
    ultimately show ?thesis by arith
  qed
  have dbeq: "filter (\<lambda>(k, d). \<not> (k \<in> set ?ids \<and> \<not> rejects k)) (db w) =
      filter (\<lambda>(k, d). \<not> (isExpiredAt now d \<and> \<not> rejects k)) (db w)"
  proof (rule filter_cong [OF refl])
    fix x assume x: "x \<in> set (db w)"
    obtain k d where kd: "x = (k, d)" by (cases x)
    from findExpired_keys [OF dist, of k d now] x kd
    show "(case x of (k, d) \<Rightarrow> \<not> (k \<in> set ?ids \<and> \<not> rejects k)) =
          (case x of (k, d) \<Rightarrow> \<not> (isExpiredAt now d \<and> \<not> rejects k))"
      by simp
  qed
  have fileq: "{path d |k d. k \<in> set ?ids \<and> map_of (db w) k = Some d} =
      (\<lambda>(k, d). path d) ` set ?E"
  proof (intro set_eqI iffI)
    fix p assume "p \<in> {path d |k d. k \<in> set ?ids \<and> map_of (db w) k = Some d}"
    then obtain k d where p: "p = path d" and k: "k \<in> set ?ids" and m: "map_of (db w) k = Some d"
      by blast
    from m have kd: "(k, d) \<in> set (db w)" by (rule map_of_SomeD)
    with findExpired_keys [OF dist kd, of now] k have "(k, d) \<in> set ?E"
      by (simp add: findExpired_def)
    with p show "p \<in> (\<lambda>(k, d). path d) ` set ?E" by force
  next
    fix p assume "p \<in> (\<lambda>(k, d). path d) ` set ?E"
    then obtain k d where p: "p = path d" and e: "(k, d) \<in> set ?E" by auto
    from e have kd: "(k, d) \<in> set (db w)" by (simp add: findExpired_def)
    with dist have "map_of (db w) k = Some d" by simp
    moreover from e have "k \<in> set ?ids" by force
    ultimately show "p \<in> {path d |k d. k \<in> set ?ids \<and> map_of (db w) k = Some d}"
      using p by blast
  qed
  from S have a: "fst (sweep rejects w ?ids 0) = 0 + length (filter (\<lambda>i. \<not> rejects i) ?ids)"
    by (rule conjunct1)
  from S have b: "db (snd (sweep rejects w ?ids 0)) =
      filter (\<lambda>(k, d). \<not> (k \<in> set ?ids \<and> \<not> rejects k)) (db w)"
    by (rule conjunct2 [THEN conjunct1])
  from S have c: "files (disk (snd (sweep rejects w ?ids 0))) =
      files (disk w) - {path d |k d. k \<in> set ?ids \<and> map_of (db w) k = Some d}"
    by (rule conjunct2 [THEN conjunct2, THEN conjunct1])
  from S have d: "dirs (disk (snd (sweep rejects w ?ids 0))) = dirs (disk w)"
    by (rule conjunct2 [THEN conjunct2, THEN conjunct2])
  show ?thesis
    unfolding res fst_conv snd_conv
    by (simp only: a b c d cnt dbeq fileq add_0_left simp_thms)
qed

theorem cleanupExpiredFiles_sweep_witness:
  "distinct (map fst (db world0))
   \<and> fst (cleanupExpiredFiles (\<lambda>i. i = ''b'') 100 world0 (Some ''admin'')) = Inr 2
   \<and> map fst (db (snd (cleanupExpiredFiles (\<lambda>i. i = ''b'') 100 world0 (Some ''admin''))))
       = [''b'', ''c'']
   \<and> ''/uploads/b.pdf'' \<notin> files (disk (snd (cleanupExpiredFiles (\<lambda>i. i = ''b'') 100 world0
         (Some ''admin''))))
   \<and> ''/uploads/c.pdf'' \<in> files (disk (snd (cleanupExpiredFiles (\<lambda>i. i = ''b'') 100 world0
         (Some ''admin''))))"
proof -
  have d: "distinct (map fst (db world0))" by (simp add: world0_def)
  have E: "findExpired (db world0) 100 =
      [(''a'', sampleDoc ''u1'' False ''/uploads/a.pdf'' (Some 10)),
       (''b'', sampleDoc ''u2'' False ''/uploads/b.pdf'' (Some 20)),
       (''d'', sampleDoc ''u2'' False ''/uploads/d.pdf'' (Some 30))]"
    by (simp add: findExpired_def isExpiredAt_def world0_def sampleDoc_def)
  have D: "filter (\<lambda>(k, d). \<not> (isExpiredAt 100 d \<and> \<not> k = ''b'')) (db world0) =
      [(''b'', sampleDoc ''u2'' False ''/uploads/b.pdf'' (Some 20)),
       (''c'', sampleDoc ''u1'' True ''/uploads/c.pdf'' None)]"
    by (simp add: isExpiredAt_def world0_def sampleDoc_def)
  have F: "files (disk world0) = {''/uploads/a.pdf'', ''/uploads/b.pdf'', ''/uploads/c.pdf'',
                          ''/uploads/d.pdf''}"
    by (simp add: world0_def)
  have P: "(\<lambda>(k, d). path d) ` set (findExpired (db world0) 100) =
      {''/uploads/a.pdf'', ''/uploads/b.pdf'', ''/uploads/d.pdf''}"
    by (simp add: E sampleDoc_def)
  from cleanupExpiredFiles_sweep [OF d, of "\<lambda>i. i = ''b''" 100]
  show ?thesis
    unfolding D P F unfolding E using d by simp
qed

text \<open>
  C10. With any role other than \<^verbatim>\<open>admin\<close> (also with none)
  \<^verbatim>\<open>cleanupExpiredFiles\<close> throws the 401 "Access Denied" error and leaves the
  collection and the disk as they were.
\<close>

theorem cleanupExpiredFiles_not_admin:
  assumes "userRole \<noteq> Some ''admin''"
  shows "cleanupExpiredFiles rejects now w userRole =
           (Inl (APIError 401 ''Access Denied''
                   ''Only administrators can cleanup expired files''), w)"
  using assms by (simp add: cleanupExpiredFiles_def)

theorem cleanupExpiredFiles_not_admin_witness:
  "Some ''user'' \<noteq> Some ''admin''
   \<and> cleanupExpiredFiles (\<lambda>i. False) 100 world0 (Some ''user'') =
       (Inl (APIError 401 ''Access Denied''
               ''Only administrators can cleanup expired files''), world0)
   \<and> cleanupExpiredFiles (\<lambda>i. False) 100 world0 None =
       (Inl (APIError 401 ''Access Denied''
               ''Only administrators can cleanup expired files''), world0)"
  using cleanupExpiredFiles_not_admin [of "Some ''user''" "\<lambda>i. False" 100 world0]
    cleanupExpiredFiles_not_admin [of None "\<lambda>i. False" 100 world0]
  by simp

subsection \<open>Archives\<close>

lemma validateAll_find:
  "List.find (\<lambda>k. \<not> validateFileAccess c k userId userRole) fileIds = Some j \<Longrightarrow>
   validateAll c fileIds userId userRole =
     Inl (APIError 401 ''Access Denied'' (''No access to file '' @ j))"
  by (induction fileIds) (auto split: if_splits)

lemma denied_b: "\<not> validateFileAccess (db world0) ''b'' ''u1'' (Some ''user'')"
  by (simp add: validateFileAccess_def findById_def world0_def sampleDoc_def canAccessFile_def)

lemma allowed_a: "validateFileAccess (db world0) ''a'' ''u1'' (Some ''user'')"
  by (simp add: validateFileAccess_def findById_def world0_def sampleDoc_def canAccessFile_def)

text \<open>
  C7. If some id of \<^verbatim>\<open>fileIds\<close> fails the access check, \<^verbatim>\<open>compressFiles\<close>
  throws the 401 "Access Denied" error that names the first such id, and the state is
  unchanged: the archive file is never opened.
\<close>

theorem compressFiles_denied:
  assumes "i \<in> set fileIds" and "\<not> validateFileAccess (db w) i userId userRole"
  shows "\<exists>j. List.find (\<lambda>k. \<not> validateFileAccess (db w) k userId userRole) fileIds = Some j
           \<and> compressFiles uploadDir timestamp archiver w fileIds userId userRole archiveName =
               (Inl (APIError 401 ''Access Denied'' (''No access to file '' @ j)), w)"
proof -
  from assms obtain j where
    j: "List.find (\<lambda>k. \<not> validateFileAccess (db w) k userId userRole) fileIds = Some j"
    by (cases "List.find (\<lambda>k. \<not> validateFileAccess (db w) k userId userRole) fileIds")
       (auto simp: find_None_iff)
  from validateAll_find [OF j] have
    "compressFiles uploadDir timestamp archiver w fileIds userId userRole archiveName =
       (Inl (APIError 401 ''Access Denied'' (''No access to file '' @ j)), w)"
    by (simp add: compressFiles_def)
  with j show ?thesis by blast
qed

theorem compressFiles_denied_witness:
  "''b'' \<in> set [''a'', ''b'']
   \<and> \<not> validateFileAccess (db world0) ''b'' ''u1'' (Some ''user'')
   \<and> compressFiles ''/uploads'' ''2024-01-15T10-30-00-000Z'' (\<lambda>entries. Some 1) world0
        [''a'', ''b''] ''u1'' (Some ''user'') None =
       (Inl (APIError 401 ''Access Denied'' ''No access to file b''), world0)"
proof -
  have m: "''b'' \<in> set [''a'', ''b'']" by simp
  from compressFiles_denied [OF m denied_b, of "''/uploads''" "''2024-01-15T10-30-00-000Z''"
      "\<lambda>entries. Some 1" None]
  show ?thesis using denied_b allowed_a by simp
qed

subsection \<open>The compression status of an upload\<close>

lemma compressFile_never_rejects:
  "\<exists>r. fst (compressFile e sharp gzip uuid uploadDir fs filePath mime orig userId fileId opts
           existingFolderPath) = Inr r"
  by (auto simp: compressFile_def Let_def split: prod.splits sum.splits option.splits)

lemma compressFileAsync_state:
  "snd (compressFileAsync e sharp gzip uuid uploadDir filePath mime orig userId fileId opts
          (Some f) existingFolderPath fs s) =
     (case fst (compressFile e sharp gzip uuid uploadDir fs filePath mime orig userId fileId opts
                  existingFolderPath) of
        Inr (Some r) \<Rightarrow> f (Some r) s
      | _ \<Rightarrow> s)"
proof -
  obtain r where "fst (compressFile e sharp gzip uuid uploadDir fs filePath mime orig userId fileId
      opts existingFolderPath) = Inr r"
    using compressFile_never_rejects by blast
  then show ?thesis
    by (cases "compressFile e sharp gzip uuid uploadDir fs filePath mime orig userId fileId
      opts existingFolderPath") (auto simp: compressFileAsync_def split: option.splits)
qed

lemma map_of_update:
  "map_of (findByIdAndUpdate c i upd) k = (if k = i then map_option upd (map_of c i) else map_of c k)"
  by (induction c) (auto simp: findByIdAndUpdate_def)

lemma statusOf_update:
  "statusOf (findByIdAndUpdate c i upd) i =
     map_option (\<lambda>d. compressionStatus (compressionInfo (upd d))) (findById c i)"
  by (simp add: statusOf_def findById_def map_of_update option.map_comp o_def)

lemma map_add_new_found:
  "\<exists>z. ([i \<mapsto> d] ++ map_of c) i = Some z"
  by (cases "map_of c i") (auto simp: map_add_def)

lemma createFile_dispatched:
  assumes "createFile e sharp gzip uuid uploadDir newId w fileData enableCompression fi =
             (res, w1, Some job)"
  shows "statusOf (db w1) newId = Some Processing"
    and "db (job w') =
          snd (compressFileAsync e sharp gzip uuid uploadDir
                 (case fi of None \<Rightarrow> path fileData
                  | Some f \<Rightarrow> path_join (fi_folderPath f)
                      (fi_userId f @ ''_'' @ newId @ extname (filename fileData)))
                 (mimetype fileData)
                 (fileSize fileData) (uploadedBy fileData) newId (uploadOptions e)
                 (Some (onComplete newId (fileSize fileData) fi))
                 (map_option fi_folderPath fi) (disk w') (db w'))"
  using assms
  unfolding createFile_def Let_def FileSchema_parse_def
  by (auto simp: statusOf_update findById_def map_of_update map_add_new_found
      split: sum.splits option.splits if_splits prod.splits)

lemma createFile_job_effect:
  assumes "createFile e sharp gzip uuid uploadDir newId w fileData enableCompression fi =
             (res, w1, Some job)"
  shows "db (job w') = db w' \<or>
         (\<exists>r. db (job w') = onComplete newId (fileSize fileData) fi (Some r) (db w'))"
  unfolding createFile_dispatched(2) [OF assms] compressFileAsync_state
  by (auto split: sum.splits option.splits)

lemma statusOf_onComplete_result:
  "statusOf (onComplete i sz fi (Some r) c) k =
     (if k = i then map_option (\<lambda>_. Completed) (statusOf c i) else statusOf c k)"
  by (simp add: onComplete_def statusOf_def findById_def map_of_update option.map_comp o_def)

lemma compressFile_sharp_throws:
  assumes "isImageType mime"
  shows "fst (compressFile e (\<lambda>p opts. None) gzip uuid uploadDir fs filePath mime orig userId fileId
           opts existingFolderPath) = Inr None"
  using assms
  by (auto simp: compressFile_def compressImage_def Let_def split: option.splits)

lemma compressFile_gzip_throws:
  assumes "\<not> isImageType mime"
  shows "fst (compressFile e sharp (\<lambda>p. None) uuid uploadDir fs filePath mime orig userId fileId
           opts existingFolderPath) = Inr None"
  using assms
  by (auto simp: compressFile_def compressTextFile_def Let_def)

lemma createFile_dispatches:
  assumes "FileSchema_parse fileData = Inr fileData"
    and "enableCompression" and "ENABLE_FILE_COMPRESSION e"
    and "shouldCompressFile e (mimetype fileData) (fileSize fileData) (uploadOptions e)"
    and "case fi of None \<Rightarrow> True
         | Some f \<Rightarrow> \<not> isl (rename (disk w) (path fileData)
             (path_join (fi_folderPath f)
                (fi_userId f @ ''_'' @ newId @ extname (filename fileData))))"
  shows "\<exists>d w1 job. createFile e sharp gzip uuid uploadDir newId w fileData enableCompression fi =
           (Inr d, w1, Some job)"
  using assms unfolding createFile_def Let_def
  by (auto split: option.splits sum.splits)

lemma isTextType_csv: "isTextType ''text/csv''"
  by (simp add: isTextType_def startsWith_def)

lemma isImageType_csv: "\<not> isImageType ''text/csv''"
  by (simp add: isImageType_def startsWith_def)

lemma extname_png0: "extname ''u1_tmp.png'' = ''.png''"
  by (simp add: extname_def basename_def Let_def)

text \<open>
  What the background work of an upload can do to a status: nothing, or set the status of
  the new document to \<^verbatim>\<open>completed\<close>. With an image library that succeeds, the upload
  of the sample image ends \<^verbatim>\<open>completed\<close>.
\<close>

lemma createFile_disk:
  assumes "createFile e sharp gzip uuid uploadDir newId w fileData enableCompression fi =
             (Inr d, w1, job)"
  shows "disk w1 =
     (case fi of None \<Rightarrow> disk w
      | Some f \<Rightarrow> (disk w)\<lparr>files :=
          insert (path_join (fi_folderPath f)
                    (fi_userId f @ ''_'' @ newId @ extname (filename fileData)))
                 (files (disk w) - {path fileData})\<rparr>)"
  using assms unfolding createFile_def Let_def FileSchema_parse_def rename_def
  by (auto split: sum.splits option.splits if_splits prod.splits)

lemma background_status_step:
  assumes "createFile e sharp gzip uuid uploadDir newId w fileData enableCompression fi =
             (res, w1, Some job)"
  shows "statusOf (db (job w')) k = statusOf (db w') k
       \<or> (k = newId \<and> statusOf (db (job w')) k = Some Completed)"
  using createFile_job_effect [OF assms, of w']
  by (cases "statusOf (db w') newId") (auto simp: statusOf_onComplete_result split: if_splits)

lemma compressFile_image_result:
  assumes "ENABLE_FILE_COMPRESSION e" and "shouldCompressFile e mime orig opts"
    and "isImageType mime" and "folder \<noteq> []"
    and "compressImage e sharp fs filePath folder userId fileId orig opts = (Inr r, fs')"
  shows "fst (compressFile e sharp gzip uuid uploadDir fs filePath mime orig userId fileId opts
           (Some folder)) = Inr (Some r)"
  using assms by (simp add: compressFile_def)

lemma successful_image_compression_completes:
  "case createFile env0 sharp0 gzipThrows ''uuid'' ''/uploads'' ''42'' start0 upload0 True
          (Some folder0) of
     (res, w1, job) \<Rightarrow>
       \<not> isl res \<and> statusOf (db w1) ''42'' = Some Processing \<and>
       (case job of None \<Rightarrow> False
        | Some work \<Rightarrow> statusOf (db (work w1)) ''42'' = Some Completed)"
proof -
  have valid: "FileSchema_parse upload0 = Inr upload0"
    by (simp add: FileSchema_parse_def upload0_def)
  have elig: "shouldCompressFile env0 (mimetype upload0) (fileSize upload0) (uploadOptions env0)"
    by (simp add: shouldCompressFile_def Let_def orDefault_def uploadOptions_def noOptions_def
        env0_def upload0_def isImageType_png)
  have moved: "case Some folder0 of None \<Rightarrow> True
         | Some f \<Rightarrow> \<not> isl (rename (disk start0) (path upload0)
             (path_join (fi_folderPath f)
                (fi_userId f @ ''_'' @ ''42'' @ extname (filename upload0))))"
    by (simp add: rename_def start0_def upload0_def folder0_def extname_png0 path_join_def
        dirname_png0)
  from createFile_dispatches [OF valid _ _ elig moved, of True sharp0 gzipThrows
      "''uuid''" "''/uploads''"]
  obtain d w1 work where run: "createFile env0 sharp0 gzipThrows ''uuid'' ''/uploads'' ''42''
      start0 upload0 True (Some folder0) = (Inr d, w1, Some work)"
    by (auto simp: env0_def)
  have img: "isImageType (mimetype upload0)"
    by (simp add: upload0_def isImageType_png)
  have newPath: "path_join (fi_folderPath folder0)
      (fi_userId folder0 @ ''_'' @ ''42'' @ extname (filename upload0)) = ''/uploads/f1/u1_42.png''"
    by (simp add: folder0_def upload0_def extname_png0 path_join_def)
  have dsk: "disk w1 = \<lparr> files = {''/uploads/f1/u1_42.png''}, dirs = {''/uploads'', ''/uploads/f1''} \<rparr>"
    using createFile_disk [OF run] unfolding option.case newPath
    by (simp add: start0_def upload0_def)
  have wb: "writeBoth (disk w1) (path_join ''/uploads/f1'' (generateFilename ''u1'' ''42'' ''png''))
      (path_join ''/uploads/f1'' (generateFilename ''u1'' ''42'' ''webp'')) =
      (Inr (), (disk w1)\<lparr>files := insert ''/uploads/f1/u1_42.webp''
                         (insert ''/uploads/f1/u1_42.png'' (files (disk w1)))\<rparr>)"
    unfolding png0 webp0
    by (rule writeBoth_ok) (simp_all add: dirname_png0 dirname_webp0 dsk)
  have inF: "''/uploads/f1/u1_42.png'' \<in> files (disk w1)" by (simp add: dsk)
  have sh: "sharp0 ''/uploads/f1/u1_42.png''
      (orDefault (quality (uploadOptions env0)) (COMPRESSION_QUALITY env0),
       orDefault (maxWidth (uploadOptions env0)) 1920,
       orDefault (maxHeight (uploadOptions env0)) 1080) = Some (900, 500)"
    by (simp add: sharp0_def)
  from compressImage_ok [where e = env0 and sharp = sharp0 and fs = "disk w1"
      and filePath = "''/uploads/f1/u1_42.png''" and folderPath = "''/uploads/f1''"
      and userId = "''u1''" and fileId = "''42''" and opts = "uploadOptions env0"
      and orig = 2000000 and p = 900 and w = 500, OF inF sh wb]
  obtain r fs' where ci: "compressImage env0 sharp0 (disk w1) ''/uploads/f1/u1_42.png''
      ''/uploads/f1'' ''u1'' ''42'' 2000000 (uploadOptions env0) = (Inr r, fs')"
    by blast
  have en: "ENABLE_FILE_COMPRESSION env0" by (simp add: env0_def)
  have elig': "shouldCompressFile env0 ''image/png'' 2000000 (uploadOptions env0)"
    using elig by (simp add: upload0_def)
  have nonempty: "''/uploads/f1'' \<noteq> []" by simp
  note cf = compressFile_image_result [OF en elig' isImageType_png nonempty ci,
      of gzipThrows "''uuid''" "''/uploads''"]
  have "db (work w1) = onComplete ''42'' 2000000 (Some folder0) (Some r) (db w1)"
    unfolding createFile_dispatched(2) [OF run] compressFileAsync_state option.case newPath
    using cf by (simp add: upload0_def folder0_def)
  with createFile_dispatched(1) [OF run] show ?thesis
    by (simp add: run statusOf_onComplete_result)
qed

text \<open>
  C6 (not met by the code). An image upload whose bytes the image library cannot
  decode: \<^verbatim>\<open>createFile\<close> succeeds and dispatches the background work with the status
  \<^verbatim>\<open>processing\<close>; \<^verbatim>\<open>compressFile\<close> catches the error and resolves with
  \<^verbatim>\<open>null\<close>, for which \<^verbatim>\<open>compressFileAsync\<close> does not call the callback: after
  the background work the status is still \<^verbatim>\<open>processing\<close>, not a terminal value.
\<close>

theorem failed_image_compression_stays_processing:
  "case createFile env0 sharpThrows gzipThrows ''uuid'' ''/uploads'' ''42'' start0 upload0 True
          (Some folder0) of
     (res, w1, job) \<Rightarrow>
       \<not> isl res \<and> statusOf (db w1) ''42'' = Some Processing \<and>
       (case job of None \<Rightarrow> False
        | Some work \<Rightarrow> statusOf (db (work w1)) ''42'' = Some Processing)"
proof -
  have valid: "FileSchema_parse upload0 = Inr upload0"
    by (simp add: FileSchema_parse_def upload0_def)
  have elig: "shouldCompressFile env0 (mimetype upload0) (fileSize upload0) (uploadOptions env0)"
    by (simp add: shouldCompressFile_def Let_def orDefault_def uploadOptions_def noOptions_def
        env0_def upload0_def isImageType_png)
  have moved: "case Some folder0 of None \<Rightarrow> True
         | Some f \<Rightarrow> \<not> isl (rename (disk start0) (path upload0)
             (path_join (fi_folderPath f)
                (fi_userId f @ ''_'' @ ''42'' @ extname (filename upload0))))"
    by (simp add: rename_def start0_def upload0_def folder0_def extname_png0 path_join_def
        dirname_png0)
  from createFile_dispatches [OF valid _ _ elig moved, of True sharpThrows gzipThrows
      "''uuid''" "''/uploads''"]
  obtain d w1 work where run: "createFile env0 sharpThrows gzipThrows ''uuid'' ''/uploads'' ''42''
      start0 upload0 True (Some folder0) = (Inr d, w1, Some work)"
    by (auto simp: env0_def)
  have img: "isImageType (mimetype upload0)"
    by (simp add: upload0_def isImageType_png)
  have "db (work w1) = db w1"
    unfolding createFile_dispatched(2) [OF run] compressFileAsync_state sharpThrows_def
    by (simp add: compressFile_sharp_throws [OF img])
  with createFile_dispatched(1) [OF run] show ?thesis
    by (simp add: run)
qed

text \<open>
  C5 (not met by the code). A text upload above the threshold whose gzip step throws: the
  status is \<^verbatim>\<open>processing\<close> at dispatch and is still \<^verbatim>\<open>processing\<close> after
  the background work has finished: no terminal value is ever set, where one should be
  set exactly once.
\<close>

theorem failed_text_compression_stays_processing:
  "case createFile env0 sharpThrows gzipThrows ''uuid'' ''/uploads'' ''43'' startCsv uploadCsv True
          None of
     (res, w1, job) \<Rightarrow>
       \<not> isl res \<and> statusOf (db w1) ''43'' = Some Processing \<and>
       (case job of None \<Rightarrow> False
        | Some work \<Rightarrow> statusOf (db (work w1)) ''43'' = Some Processing)"
proof -
  have valid: "FileSchema_parse uploadCsv = Inr uploadCsv"
    by (simp add: FileSchema_parse_def uploadCsv_def)
  have elig: "shouldCompressFile env0 (mimetype uploadCsv) (fileSize uploadCsv)
      (uploadOptions env0)"
    by (simp add: shouldCompressFile_def Let_def orDefault_def uploadOptions_def noOptions_def
        env0_def uploadCsv_def isImageType_csv isTextType_csv isPdfType_def)
  have moved: "case (None :: folderInfo option) of None \<Rightarrow> True
         | Some f \<Rightarrow> \<not> isl (rename (disk startCsv) (path uploadCsv)
             (path_join (fi_folderPath f)
                (fi_userId f @ ''_'' @ ''43'' @ extname (filename uploadCsv))))"
    by simp
  from createFile_dispatches [OF valid _ _ elig moved, of True sharpThrows gzipThrows
      "''uuid''" "''/uploads''"]
  obtain d w1 work where run: "createFile env0 sharpThrows gzipThrows ''uuid'' ''/uploads'' ''43''
      startCsv uploadCsv True None = (Inr d, w1, Some work)"
    by (auto simp: env0_def)
  have noimg: "\<not> isImageType (mimetype uploadCsv)"
    by (simp add: uploadCsv_def isImageType_csv)
  have "db (work w1) = db w1"
    unfolding createFile_dispatched(2) [OF run] compressFileAsync_state gzipThrows_def
    by (simp add: compressFile_gzip_throws [OF noimg])
  with createFile_dispatched(1) [OF run] show ?thesis
    by (simp add: run)
qed

end
